theory Spec2Isabelle
  imports Complex_Main "HOL-Library.Product_Lexorder" "HOL-Library.Multiset"
begin

section \<open>Floating-point values\<close>

text \<open>
  The engine computes with IEEE doubles. They are modelled in exact arithmetic: a finite
  value is a real number, and the special values (the two infinities and not-a-number) are
  constructors of their own. Rounding error of the double arithmetic is not modelled.
\<close>

datatype pyfloat = Fin real | PInf | NInf | NaN

text \<open>Python's \<open><\<close> and \<open><=\<close> on floats: every comparison with NaN is false.\<close>

fun float_lt :: "pyfloat \<Rightarrow> pyfloat \<Rightarrow> bool" where
  "float_lt NaN _ = False"
| "float_lt _ NaN = False"
| "float_lt (Fin a) (Fin b) = (a < b)"
| "float_lt NInf NInf = False"
| "float_lt NInf _ = True"
| "float_lt _ NInf = False"
| "float_lt PInf _ = False"
| "float_lt _ PInf = True"


text \<open>Division of two finite doubles as numpy does it: no exception, \<open>0 / 0\<close> is NaN.\<close>

definition float_div :: "real \<Rightarrow> real \<Rightarrow> pyfloat" where
  "float_div a b =
     (if b \<noteq> 0 then Fin (a / b)
      else if a = 0 then NaN
      else if 0 < a then PInf else NInf)"

text \<open>
  The order numpy sorts and searches by: the usual order of the extended reals, with NaN
  after everything else.
\<close>

fun float_key :: "pyfloat \<Rightarrow> nat \<times> real" where
  "float_key NInf = (0, 0)"
| "float_key (Fin x) = (1, x)"
| "float_key PInf = (2, 0)"
| "float_key NaN = (3, 0)"

definition np_sort :: "pyfloat list \<Rightarrow> pyfloat list" where
  "np_sort xs = sort_key float_key xs"

text \<open>
  \<open>round(x, ndigits)\<close> on a double: to the nearest multiple of \<open>10 ^ (- ndigits)\<close>,
  a tie to the even one; the special values are returned as they are.
\<close>

definition rint :: "real \<Rightarrow> int" where
  "rint x =
     (let f = \<lfloor>x\<rfloor>; d = x - of_int f
      in if d < 1 / 2 then f
         else if 1 / 2 < d then f + 1
         else if even f then f else f + 1)"

fun py_round :: "pyfloat \<Rightarrow> nat \<Rightarrow> pyfloat" where
  "py_round (Fin x) ndigits = Fin (of_int (rint (x * 10 ^ ndigits)) / 10 ^ ndigits)"
| "py_round v ndigits = v"

section \<open>The rank table\<close>

text \<open>One row of \<open>LETTER_RANKS\<close>: a dictionary with three fixed keys.\<close>

record grade =
  wasserstein_boundary :: real
  kolmogorov_smirnov_boundary :: real
  rank :: string

definition LETTER_RANKS :: "grade list" where
  "LETTER_RANKS =
    [\<lparr>wasserstein_boundary = 0.030, kolmogorov_smirnov_boundary = 0.080, rank = ''S''\<rparr>,
     \<lparr>wasserstein_boundary = 0.060, kolmogorov_smirnov_boundary = 0.150, rank = ''A''\<rparr>,
     \<lparr>wasserstein_boundary = 0.100, kolmogorov_smirnov_boundary = 0.170, rank = ''B''\<rparr>,
     \<lparr>wasserstein_boundary = 0.125, kolmogorov_smirnov_boundary = 0.220, rank = ''C''\<rparr>,
     \<lparr>wasserstein_boundary = 0.150, kolmogorov_smirnov_boundary = 0.260, rank = ''D''\<rparr>,
     \<lparr>wasserstein_boundary = 0.200, kolmogorov_smirnov_boundary = 0.300, rank = ''E''\<rparr>,
     \<lparr>wasserstein_boundary = 0.250, kolmogorov_smirnov_boundary = 0.340, rank = ''F''\<rparr>]"

section \<open>The rank classifier\<close>

text \<open>
  \<open>_letter_rank_distance_statistics\<close>: the \<open>for\<close> loop over \<open>self.LETTER_RANKS\<close> is a
  recursion over the table; the table, \<open>self.wasserstein_d_value\<close> and \<open>self.ks_d_value\<close>
  are the arguments. The first row whose two strict comparisons hold returns its label; the
  statement after the loop returns \<open>"F"\<close>.
\<close>

fun letter_rank_distance_statistics :: "grade list \<Rightarrow> pyfloat \<Rightarrow> pyfloat \<Rightarrow> string" where
  "letter_rank_distance_statistics [] wasserstein_d_value ks_d_value = ''F''"
| "letter_rank_distance_statistics (grade # grades) wasserstein_d_value ks_d_value =
     (let ks_critical_grade = kolmogorov_smirnov_boundary grade;
          wasserstein_critical_grade = wasserstein_boundary grade
      in if float_lt wasserstein_d_value (Fin wasserstein_critical_grade)
            \<and> float_lt ks_d_value (Fin ks_critical_grade)
         then rank grade
         else letter_rank_distance_statistics grades wasserstein_d_value ks_d_value)"

text \<open>
  The severity order of the labels, as the table in the docstring of the classifier lists
  them: S is the mildest, F the most severe. A string that is no label comes after all of
  them.
\<close>

definition rank_labels :: "string list" where
  "rank_labels = [''S'', ''A'', ''B'', ''C'', ''D'', ''E'', ''F'']"

definition severity :: "string \<Rightarrow> nat" where
  "severity l = length (takeWhile (\<lambda>x. x \<noteq> l) rank_labels)"

text \<open>
  A table and its scaled-up version: the same labels row by row, every boundary at least
  as large.
\<close>

definition scaled_up :: "grade list \<Rightarrow> grade list \<Rightarrow> bool" where
  "scaled_up t t' =
     list_all2 (\<lambda>g g'. rank g' = rank g
        \<and> wasserstein_boundary g \<le> wasserstein_boundary g'
        \<and> kolmogorov_smirnov_boundary g \<le> kolmogorov_smirnov_boundary g') t t'"

text \<open>The test of one row in the loop: both comparisons are strict.\<close>

definition within_grade :: "grade \<Rightarrow> pyfloat \<Rightarrow> pyfloat \<Rightarrow> bool" where
  "within_grade g w k \<longleftrightarrow>
     float_lt w (Fin (wasserstein_boundary g)) \<and> float_lt k (Fin (kolmogorov_smirnov_boundary g))"

section \<open>The empirical distribution builder\<close>

text \<open>
  Exceptions are values. The only exception on the engine's path is the \<open>ValueError\<close>
  that numpy and scipy raise on empty input.
\<close>

datatype error = ValueError

text \<open>
  The ambient random source of \<open>np.random\<close> is explicit state: a stream of natural
  numbers, one for each index to be drawn. Which stream belongs to which seed is not
  modelled. \<open>np.random.choice(a, size)\<close> draws \<open>size\<close> indices below \<open>len(a)\<close>, with
  replacement, reads \<open>a\<close> there and leaves the source advanced by \<open>size\<close> numbers; it
  raises when \<open>a\<close> is empty and a value is asked for.
\<close>

type_synonym random_state = "nat \<Rightarrow> nat"

definition random_choice ::
  "random_state \<Rightarrow> real list \<Rightarrow> nat \<Rightarrow> error + (real list \<times> random_state)" where
  "random_choice rs a size_n =
     (if a = [] \<and> size_n \<noteq> 0 then Inl ValueError
      else Inr (map (\<lambda>j. a ! (rs j mod length a)) [0..<size_n], \<lambda>j. rs (j + size_n)))"

text \<open>
  \<open>ndarray.mean\<close> and \<open>ndarray.std\<close> (the population standard deviation, the root
  of the mean of the squared absolute deviations) of finite values, in exact arithmetic.
  On an empty array numpy returns NaN for both, with a warning; the engine then divides
  no value by it, and the model's value for the empty list is never used either.
\<close>

definition np_mean :: "real list \<Rightarrow> real" where
  "np_mean xs = sum_list xs / real (length xs)"

definition np_std :: "real list \<Rightarrow> real" where
  "np_std xs = sqrt (np_mean (map (\<lambda>x. \<bar>x - np_mean xs\<bar> ^ 2) xs))"

text \<open>
  \<open>normalize_raw_data\<close>: the subtraction and the division are element-wise; nothing
  checks the divisor.
\<close>

definition normalize_raw_data :: "real list \<Rightarrow> pyfloat list" where
  "normalize_raw_data raw_data =
     map (\<lambda>x. float_div (x - np_mean raw_data) (np_std raw_data)) raw_data"

text \<open>
  A data frame with the columns \<open>measure\<close> and \<open>probability\<close> is the list of its rows.
\<close>

type_synonym dataframe = "(pyfloat \<times> real) list"

definition measure_column :: "dataframe \<Rightarrow> pyfloat list" where
  "measure_column sample = map fst sample"

definition probability_column :: "dataframe \<Rightarrow> real list" where
  "probability_column sample = map snd sample"

text \<open>
  \<open>_calculate_empirical_cumulative_distribution_function\<close>, from the second line on:
  what is made of the drawn values. The probabilities \<open>i / n\<close> and their comparison with
  0.96 are exact here; in doubles the comparison comes out the same unless \<open>i / n\<close> is
  within half a unit in the last place of 0.96, which needs \<open>n\<close> beyond \<open>10 ^ 14\<close>.
\<close>

definition ecdf_of_raw_data :: "real list \<Rightarrow> dataframe" where
  "ecdf_of_raw_data raw_data =
     (let normalized_sample = normalize_raw_data raw_data;
          sample = zip (np_sort normalized_sample)
                       (map (\<lambda>i. real i / real (length normalized_sample))
                            [0..<length normalized_sample])
      in filter (\<lambda>(m, p). \<not> (p \<ge> 0.96)) sample)"

text \<open>The whole method: the draw at \<open>self.sample_size\<close>, then the rest.\<close>

definition calculate_empirical_cumulative_distribution_function ::
  "nat \<Rightarrow> random_state \<Rightarrow> real list \<Rightarrow> error + (dataframe \<times> random_state)" where
  "calculate_empirical_cumulative_distribution_function sample_size rs population =
     (case random_choice rs population sample_size of
        Inl e \<Rightarrow> Inl e
      | Inr (raw_data, rs') \<Rightarrow> Inr (ecdf_of_raw_data raw_data, rs'))"

section \<open>The distance statistics\<close>

text \<open>
  The two statistics come from \<open>scipy.stats\<close>, which is outside the repository: the
  engine takes the two routines as parameters. Each may raise.
\<close>

record scipy_stats =
  wasserstein_distance :: "pyfloat list \<Rightarrow> pyfloat list \<Rightarrow> error + pyfloat"
  ks_2samp :: "pyfloat list \<Rightarrow> pyfloat list \<Rightarrow> error + (pyfloat \<times> pyfloat)"

definition calculate_wasserstein_distance_statistics ::
  "scipy_stats \<Rightarrow> dataframe \<Rightarrow> dataframe \<Rightarrow> error + pyfloat" where
  "calculate_wasserstein_distance_statistics lib sample_a sample_b =
     (case wasserstein_distance lib (measure_column sample_a) (measure_column sample_b) of
        Inl e \<Rightarrow> Inl e
      | Inr wasserstein \<Rightarrow> Inr (py_round wasserstein 3))"

definition calculate_kolmogorov_smirnov_distance_statistics ::
  "scipy_stats \<Rightarrow> dataframe \<Rightarrow> dataframe \<Rightarrow> error + (pyfloat \<times> pyfloat)" where
  "calculate_kolmogorov_smirnov_distance_statistics lib sample_a sample_b =
     (case ks_2samp lib (measure_column sample_a) (measure_column sample_b) of
        Inl e \<Rightarrow> Inl e
      | Inr (kolmogorov_smirnov_distance, kolmogorov_smirnov_probability) \<Rightarrow>
          Inr (py_round kolmogorov_smirnov_distance 3, kolmogorov_smirnov_probability))"

section \<open>The engine\<close>

text \<open>The attributes of a constructed \<open>StatisticalDistanceTest\<close>.\<close>

record statistical_distance_test =
  sample_size :: nat
  sample_a :: dataframe
  sample_b :: dataframe
  wasserstein_d_value :: pyfloat
  ks_d_value :: pyfloat
  ks_p_value :: pyfloat
  rank :: string

text \<open>
  \<open>__init__\<close>: the six assignments in their order. An exception in any of them leaves no
  object. The result carries the random source as the construction leaves it.
\<close>

definition StatisticalDistanceTest ::
  "scipy_stats \<Rightarrow> random_state \<Rightarrow> real list \<Rightarrow> real list
     \<Rightarrow> error + (statistical_distance_test \<times> random_state)" where
  "StatisticalDistanceTest lib rs population_a population_b =
     (let n = min (length population_a) (length population_b)
      in case calculate_empirical_cumulative_distribution_function n rs population_a of
           Inl e \<Rightarrow> Inl e
         | Inr (a, rs1) \<Rightarrow>
        (case calculate_empirical_cumulative_distribution_function n rs1 population_b of
           Inl e \<Rightarrow> Inl e
         | Inr (b, rs2) \<Rightarrow>
        (case calculate_wasserstein_distance_statistics lib a b of
           Inl e \<Rightarrow> Inl e
         | Inr w \<Rightarrow>
        (case calculate_kolmogorov_smirnov_distance_statistics lib a b of
           Inl e \<Rightarrow> Inl e
         | Inr (d, p) \<Rightarrow>
             Inr (\<lparr>sample_size = n, sample_a = a, sample_b = b,
                   wasserstein_d_value = w, ks_d_value = d, ks_p_value = p,
                   rank = letter_rank_distance_statistics LETTER_RANKS w d\<rparr>, rs2)))))"

section \<open>A reference model of the two library routines\<close>

text \<open>
  To run the engine on concrete populations the parameters need values. The two routines
  are modelled from their documented definitions, in exact arithmetic:
  \<open>np.diff\<close>, \<open>np.sum\<close> and \<open>searchsorted(side='right')\<close> first, then the first
  Wasserstein distance of two samples as scipy computes it (the integral of the absolute
  difference of the two empirical distribution functions), and the two-sample
  Kolmogorov-Smirnov test with its defaults (two-sided, NaN propagates, the exact
  distribution of the statistic, the probability clipped to the unit interval).
\<close>

fun float_neg :: "pyfloat \<Rightarrow> pyfloat" where
  "float_neg (Fin a) = Fin (- a)"
| "float_neg PInf = NInf"
| "float_neg NInf = PInf"
| "float_neg NaN = NaN"

fun float_add :: "pyfloat \<Rightarrow> pyfloat \<Rightarrow> pyfloat" where
  "float_add NaN _ = NaN"
| "float_add _ NaN = NaN"
| "float_add (Fin a) (Fin b) = Fin (a + b)"
| "float_add PInf NInf = NaN"
| "float_add NInf PInf = NaN"
| "float_add PInf _ = PInf"
| "float_add _ PInf = PInf"
| "float_add NInf _ = NInf"
| "float_add _ NInf = NInf"

text \<open>The product of a finite value and a double.\<close>

fun float_scale :: "real \<Rightarrow> pyfloat \<Rightarrow> pyfloat" where
  "float_scale c (Fin b) = Fin (c * b)"
| "float_scale c NaN = NaN"
| "float_scale c PInf = (if c = 0 then NaN else if 0 < c then PInf else NInf)"
| "float_scale c NInf = (if c = 0 then NaN else if 0 < c then NInf else PInf)"

definition np_diff :: "pyfloat list \<Rightarrow> pyfloat list" where
  "np_diff xs = map (\<lambda>(x, y). float_add y (float_neg x)) (zip xs (tl xs))"

definition np_sum :: "pyfloat list \<Rightarrow> pyfloat" where
  "np_sum xs = foldl float_add (Fin 0) xs"

definition searchsorted_right :: "pyfloat list \<Rightarrow> pyfloat \<Rightarrow> nat" where
  "searchsorted_right xs x = length (filter (\<lambda>y. float_key y \<le> float_key x) xs)"

definition np_clip :: "real \<Rightarrow> real \<Rightarrow> real \<Rightarrow> real" where
  "np_clip x lo hi = min (max x lo) hi"

definition stats_wasserstein_distance :: "pyfloat list \<Rightarrow> pyfloat list \<Rightarrow> error + pyfloat" where
  "stats_wasserstein_distance u_values v_values =
     (if u_values = [] \<or> v_values = [] then Inl ValueError
      else
        let all_values = np_sort (u_values @ v_values);
            deltas = np_diff all_values;
            u_cdf = map (\<lambda>x. real (searchsorted_right u_values x) / real (length u_values))
                        (butlast all_values);
            v_cdf = map (\<lambda>x. real (searchsorted_right v_values x) / real (length v_values))
                        (butlast all_values)
        in Inr (np_sum (map (\<lambda>((a, b), d). float_scale \<bar>a - b\<bar> d)
                            (zip (zip u_cdf v_cdf) deltas))))"

text \<open>
  The number of monotone lattice paths from \<open>(0, 0)\<close> to \<open>(i, j)\<close> on which the two
  empirical distribution functions of samples of sizes \<open>n1\<close> and \<open>n2\<close> stay closer than
  \<open>d\<close>; the exact probability of a statistic of at least \<open>d\<close> is the share of the other
  paths among all paths to \<open>(n1, n2)\<close>.
\<close>

fun paths_inside :: "nat \<Rightarrow> nat \<Rightarrow> real \<Rightarrow> nat \<Rightarrow> nat \<Rightarrow> nat" where
  "paths_inside n1 n2 d 0 0 = (if d \<le> 0 then 0 else 1)"
| "paths_inside n1 n2 d (Suc i) 0 =
     (if d \<le> \<bar>real (Suc i) / real n1\<bar> then 0 else paths_inside n1 n2 d i 0)"
| "paths_inside n1 n2 d 0 (Suc j) =
     (if d \<le> \<bar>real (Suc j) / real n2\<bar> then 0 else paths_inside n1 n2 d 0 j)"
| "paths_inside n1 n2 d (Suc i) (Suc j) =
     (if d \<le> \<bar>real (Suc i) / real n1 - real (Suc j) / real n2\<bar> then 0
      else paths_inside n1 n2 d i (Suc j) + paths_inside n1 n2 d (Suc i) j)"

definition ks_exact_probability :: "nat \<Rightarrow> nat \<Rightarrow> real \<Rightarrow> real" where
  "ks_exact_probability n1 n2 d =
     1 - real (paths_inside n1 n2 d n1 n2) / real ((n1 + n2) choose n1)"

definition stats_ks_2samp :: "pyfloat list \<Rightarrow> pyfloat list \<Rightarrow> error + (pyfloat \<times> pyfloat)" where
  "stats_ks_2samp data1 data2 =
     (if data1 = [] \<or> data2 = [] then Inl ValueError
      else if NaN \<in> set data1 \<or> NaN \<in> set data2 then Inr (NaN, NaN)
      else
        let n1 = length data1;
            n2 = length data2;
            data_all = np_sort data1 @ np_sort data2;
            cddiffs = map (\<lambda>x. real (searchsorted_right data1 x) / real n1
                                - real (searchsorted_right data2 x) / real n2) data_all;
            minS = np_clip (- Min (set cddiffs)) 0 1;
            maxS = Max (set cddiffs);
            d = max minS maxS;
            prob = np_clip (ks_exact_probability n1 n2 d) 0 1
        in Inr (Fin d, Fin prob))"

definition scipy_stats_ref :: scipy_stats where
  "scipy_stats_ref =
     \<lparr>wasserstein_distance = stats_wasserstein_distance, ks_2samp = stats_ks_2samp\<rparr>"




text \<open>A scaled-up copy of the table of the class: every boundary doubled.\<close>

definition doubled_ranks :: "grade list" where
  "doubled_ranks = map (\<lambda>g. g\<lparr>wasserstein_boundary := 2 * wasserstein_boundary g,
       kolmogorov_smirnov_boundary := 2 * kolmogorov_smirnov_boundary g\<rparr>) LETTER_RANKS"


section \<open>Properties of the rank classifier\<close>

lemma scan_Cons [simp]:
  "letter_rank_distance_statistics (g # gs) w k =
     (if within_grade g w k then grade.rank g else letter_rank_distance_statistics gs w k)"
  by (simp add: within_grade_def)

declare letter_rank_distance_statistics.simps(2) [simp del]


lemma rank_table_shape:
  "length LETTER_RANKS = 7
   \<and> map grade.rank LETTER_RANKS = rank_labels
   \<and> sorted_wrt (<) (map wasserstein_boundary LETTER_RANKS)
   \<and> sorted_wrt (<) (map kolmogorov_smirnov_boundary LETTER_RANKS)"
  by (simp add: LETTER_RANKS_def rank_labels_def)

lemma scan_first_match:
  "(\<exists>i<length t.
        (within_grade (t ! i) w k)
      \<and> (\<forall>j<i. \<not> (within_grade (t ! j) w k))
      \<and> letter_rank_distance_statistics t w k = grade.rank (t ! i))
   \<or> ((\<forall>j<length t. \<not> (within_grade (t ! j) w k))
      \<and> letter_rank_distance_statistics t w k = ''F'')"
proof (induction t)
  case Nil
  then show ?case by simp
next
  case (Cons g t)
  let ?hit = "\<lambda>r. within_grade r w k"
  show ?case
  proof (cases "?hit g")
    case True
    then have "0 < length (g # t) \<and> ?hit ((g # t) ! 0) \<and> (\<forall>j<0. \<not> ?hit ((g # t) ! j))
       \<and> letter_rank_distance_statistics (g # t) w k = grade.rank ((g # t) ! 0)"
      by simp
    then show ?thesis by blast
  next
    case False
    from Cons.IH show ?thesis
    proof
      assume "\<exists>i<length t. ?hit (t ! i) \<and> (\<forall>j<i. \<not> ?hit (t ! j)) \<and> letter_rank_distance_statistics t w k = grade.rank (t ! i)"
      then obtain i where i: "i < length t" "?hit (t ! i)" "\<forall>j<i. \<not> ?hit (t ! j)"
        "letter_rank_distance_statistics t w k = grade.rank (t ! i)" by blast
      have "\<forall>j<Suc i. \<not> ?hit ((g # t) ! j)"
        using False i(3) by (auto simp: less_Suc_eq_0_disj)
      with i False have "Suc i < length (g # t) \<and> ?hit ((g # t) ! Suc i) \<and> (\<forall>j<Suc i. \<not> ?hit ((g # t) ! j))
         \<and> letter_rank_distance_statistics (g # t) w k = grade.rank ((g # t) ! Suc i)"
        by simp
      then show ?thesis by blast
    next
      assume a: "(\<forall>j<length t. \<not> ?hit (t ! j)) \<and> letter_rank_distance_statistics t w k = ''F''"
      then have "\<forall>j<length (g # t). \<not> ?hit ((g # t) ! j)"
        using False by (auto simp: less_Suc_eq_0_disj)
      with a False show ?thesis by simp
    qed
  qed
qed


lemma scan_skip:
  "i < length t \<Longrightarrow>
   \<forall>j\<le>i. \<not> (within_grade (t ! j) w k) \<Longrightarrow>
   letter_rank_distance_statistics t w k = letter_rank_distance_statistics (drop (Suc i) t) w k"
proof (induction t arbitrary: i)
  case Nil
  then show ?case by simp
next
  case (Cons g t)
  from Cons.prems(2) have g: "\<not> (within_grade g w k)"
    by force
  show ?case
  proof (cases i)
    case 0
    with g show ?thesis by simp
  next
    case (Suc i')
    have "\<forall>j\<le>i'. \<not> (within_grade (t ! j) w k)"
    proof (intro allI impI)
      fix j assume "j \<le> i'"
      then have "Suc j \<le> i" using Suc by simp
      with Cons.prems(2) show "\<not> (within_grade (t ! j) w k)"
        by (metis nth_Cons_Suc)
    qed
    moreover have "i' < length t" using Cons.prems(1) Suc by simp
    ultimately have "letter_rank_distance_statistics t w k = letter_rank_distance_statistics (drop (Suc i') t) w k"
      by (rule Cons.IH[rotated])
    with g Suc show ?thesis by simp
  qed
qed

lemma sorted_boundary_le:
  "sorted_wrt (<) (map f t) \<Longrightarrow> j \<le> i \<Longrightarrow> i < length t \<Longrightarrow> (f (t ! j) :: real) \<le> f (t ! i)"
  by (cases "j = i") (auto simp: sorted_wrt_map dest: sorted_wrt_nth_less[where i = j and j = i])

lemma tie_wasserstein:
  assumes "i < length LETTER_RANKS" "w = Fin (wasserstein_boundary (LETTER_RANKS ! i))"
  shows "letter_rank_distance_statistics LETTER_RANKS w k
       = letter_rank_distance_statistics (drop (Suc i) LETTER_RANKS) w k"
proof (rule scan_skip[OF assms(1)], intro allI impI)
  fix j assume "j \<le> i"
  then have "wasserstein_boundary (LETTER_RANKS ! j) \<le> wasserstein_boundary (LETTER_RANKS ! i)"
    using rank_table_shape assms(1) by (intro sorted_boundary_le) auto
  then show "\<not> (within_grade (LETTER_RANKS ! j) w k)"
    using assms(2) by (simp add: within_grade_def)
qed


lemma tie_ks:
  assumes "i < length LETTER_RANKS" "k = Fin (kolmogorov_smirnov_boundary (LETTER_RANKS ! i))"
  shows "letter_rank_distance_statistics LETTER_RANKS w k
       = letter_rank_distance_statistics (drop (Suc i) LETTER_RANKS) w k"
proof (rule scan_skip[OF assms(1)], intro allI impI)
  fix j assume "j \<le> i"
  then have "kolmogorov_smirnov_boundary (LETTER_RANKS ! j) \<le> kolmogorov_smirnov_boundary (LETTER_RANKS ! i)"
    using rank_table_shape assms(1) by (intro sorted_boundary_le) auto
  then show "\<not> (within_grade (LETTER_RANKS ! j) w k)"
    using assms(2) by (simp add: within_grade_def)
qed

lemma scan_label: "letter_rank_distance_statistics t w k \<in> insert ''F'' (grade.rank ` set t)"
  by (induction t) auto

lemma scan_nan:
  "w = NaN \<or> k = NaN \<Longrightarrow> letter_rank_distance_statistics t w k = ''F''"
  by (induction t) (auto simp: within_grade_def)

lemma float_lt_mono: "float_lt w (Fin b) \<Longrightarrow> b \<le> b' \<Longrightarrow> float_lt w (Fin b')"
  by (cases w) auto

lemma within_grade_mono:
  "within_grade g w k \<Longrightarrow> wasserstein_boundary g \<le> wasserstein_boundary g' \<Longrightarrow>
   kolmogorov_smirnov_boundary g \<le> kolmogorov_smirnov_boundary g' \<Longrightarrow> within_grade g' w k"
  by (auto simp: within_grade_def intro: float_lt_mono)

lemma severity_F: "severity ''F'' = 6"
  by (simp add: severity_def rank_labels_def)

lemma scan_monotone:
  "list_all2 (\<lambda>g g'. grade.rank g' = grade.rank g
        \<and> wasserstein_boundary g \<le> wasserstein_boundary g'
        \<and> kolmogorov_smirnov_boundary g \<le> kolmogorov_smirnov_boundary g') t t' \<Longrightarrow>
   sorted (map (\<lambda>g. severity (grade.rank g)) t) \<Longrightarrow>
   \<forall>g\<in>set t. severity (grade.rank g) \<le> severity ''F'' \<Longrightarrow>
   severity (letter_rank_distance_statistics t' w k) \<le> severity (letter_rank_distance_statistics t w k)"
proof (induction rule: list_all2_induct)
  case Nil
  then show ?case by simp
next
  case (Cons g t g' t')
  have IH: "severity (letter_rank_distance_statistics t' w k) \<le> severity (letter_rank_distance_statistics t w k)"
    using Cons by simp
  show ?case
  proof (cases "within_grade g' w k")
    case hit': True
    show ?thesis
    proof (cases "within_grade g w k")
      case True
      with hit' Cons.hyps(1) show ?thesis by simp
    next
      case False
      have "letter_rank_distance_statistics t w k \<in> insert ''F'' (grade.rank ` set t)"
        by (rule scan_label)
      then have "severity (grade.rank g) \<le> severity (letter_rank_distance_statistics t w k)"
        using Cons.prems by auto
      with hit' False Cons.hyps(1) show ?thesis by simp
    qed
  next
    case False
    then have "\<not> within_grade g w k"
      using Cons.hyps(1) within_grade_mono by blast
    with False IH show ?thesis by simp
  qed
qed

text \<open>
  Claim C6: the rank table has exactly seven rows, labelled S, A, B, C, D, E, F in this
  order, and both boundary columns increase strictly from the S row to the F row.
\<close>

theorem rank_table_seven_rows_increasing:
  "length LETTER_RANKS = 7
   \<and> map grade.rank LETTER_RANKS = [''S'', ''A'', ''B'', ''C'', ''D'', ''E'', ''F'']
   \<and> sorted_wrt (<) (map wasserstein_boundary LETTER_RANKS)
   \<and> sorted_wrt (<) (map kolmogorov_smirnov_boundary LETTER_RANKS)"
  by (simp add: LETTER_RANKS_def)

text \<open>
  Claim C1: for every pair of distance values the classifier returns the label of the first
  row of the table, in the order S to F, whose two boundaries are both strictly above the
  values, and \<open>"F"\<close> when no row is; a value equal to a boundary of a row does not
  match that row, and the result is the one the scan of the rows after it gives.
\<close>

theorem letter_rank_first_strict_match:
  "((\<exists>i<length LETTER_RANKS.
        within_grade (LETTER_RANKS ! i) w k
      \<and> (\<forall>j<i. \<not> within_grade (LETTER_RANKS ! j) w k)
      \<and> letter_rank_distance_statistics LETTER_RANKS w k = grade.rank (LETTER_RANKS ! i))
    \<or> ((\<forall>j<length LETTER_RANKS. \<not> within_grade (LETTER_RANKS ! j) w k)
      \<and> letter_rank_distance_statistics LETTER_RANKS w k = ''F''))
   \<and> (\<forall>i<length LETTER_RANKS.
         w = Fin (wasserstein_boundary (LETTER_RANKS ! i))
       \<or> k = Fin (kolmogorov_smirnov_boundary (LETTER_RANKS ! i)) \<longrightarrow>
         \<not> within_grade (LETTER_RANKS ! i) w k
       \<and> letter_rank_distance_statistics LETTER_RANKS w k
           = letter_rank_distance_statistics (drop (Suc i) LETTER_RANKS) w k)"
proof (intro conjI allI impI)
  show "(\<exists>i<length LETTER_RANKS.
        within_grade (LETTER_RANKS ! i) w k
      \<and> (\<forall>j<i. \<not> within_grade (LETTER_RANKS ! j) w k)
      \<and> letter_rank_distance_statistics LETTER_RANKS w k = grade.rank (LETTER_RANKS ! i))
    \<or> ((\<forall>j<length LETTER_RANKS. \<not> within_grade (LETTER_RANKS ! j) w k)
      \<and> letter_rank_distance_statistics LETTER_RANKS w k = ''F'')"
    by (rule scan_first_match)
next
  fix i
  assume "i < length LETTER_RANKS"
    and "w = Fin (wasserstein_boundary (LETTER_RANKS ! i))
       \<or> k = Fin (kolmogorov_smirnov_boundary (LETTER_RANKS ! i))"
  then show "\<not> within_grade (LETTER_RANKS ! i) w k"
    by (auto simp: within_grade_def)
next
  fix i
  assume "i < length LETTER_RANKS"
    and "w = Fin (wasserstein_boundary (LETTER_RANKS ! i))
       \<or> k = Fin (kolmogorov_smirnov_boundary (LETTER_RANKS ! i))"
  then show "letter_rank_distance_statistics LETTER_RANKS w k
           = letter_rank_distance_statistics (drop (Suc i) LETTER_RANKS) w k"
    using tie_wasserstein tie_ks by blast
qed

text \<open>
  Claim C1 at a tie: a Wasserstein value of exactly 0.030, the boundary of the S row, with a
  small KS value is ranked A.
\<close>

theorem letter_rank_first_strict_match_witness:
  "letter_rank_distance_statistics LETTER_RANKS (Fin 0.030) (Fin 0.010) = ''A''
   \<and> \<not> within_grade (LETTER_RANKS ! 0) (Fin 0.030) (Fin 0.010)
   \<and> within_grade (LETTER_RANKS ! 1) (Fin 0.030) (Fin 0.010)"
proof -
  have len: "0 < length LETTER_RANKS"
    by (simp add: LETTER_RANKS_def)
  have tie: "Fin 0.030 = Fin (wasserstein_boundary (LETTER_RANKS ! 0))"
    by (simp add: LETTER_RANKS_def)
  from letter_rank_first_strict_match [of "Fin 0.030" "Fin 0.010"] len tie
  have "\<not> within_grade (LETTER_RANKS ! 0) (Fin 0.030) (Fin 0.010)
      \<and> letter_rank_distance_statistics LETTER_RANKS (Fin 0.030) (Fin 0.010)
          = letter_rank_distance_statistics (drop (Suc 0) LETTER_RANKS) (Fin 0.030) (Fin 0.010)"
    by blast
  moreover have "letter_rank_distance_statistics (drop (Suc 0) LETTER_RANKS) (Fin 0.030) (Fin 0.010) = ''A''"
    by (simp add: LETTER_RANKS_def within_grade_def)
  moreover have "within_grade (LETTER_RANKS ! 1) (Fin 0.030) (Fin 0.010)"
    by (simp add: LETTER_RANKS_def within_grade_def)
  ultimately show ?thesis by simp
qed

text \<open>
  Claim C9: the classifier returns one of the seven labels for every pair of values, and
  \<open>"F"\<close> whenever one of the two values is NaN.
\<close>

theorem letter_rank_total_nan_is_F:
  "letter_rank_distance_statistics LETTER_RANKS w k \<in> {''S'', ''A'', ''B'', ''C'', ''D'', ''E'', ''F''}
   \<and> (w = NaN \<or> k = NaN \<longrightarrow> letter_rank_distance_statistics LETTER_RANKS w k = ''F'')"
proof
  have "letter_rank_distance_statistics LETTER_RANKS w k \<in> insert ''F'' (grade.rank ` set LETTER_RANKS)"
    by (rule scan_label)
  also have "insert ''F'' (grade.rank ` set LETTER_RANKS) = {''S'', ''A'', ''B'', ''C'', ''D'', ''E'', ''F''}"
    by (auto simp: LETTER_RANKS_def)
  finally show "letter_rank_distance_statistics LETTER_RANKS w k \<in> {''S'', ''A'', ''B'', ''C'', ''D'', ''E'', ''F''}" .
  show "w = NaN \<or> k = NaN \<longrightarrow> letter_rank_distance_statistics LETTER_RANKS w k = ''F''"
    using scan_nan by blast
qed

text \<open>
  Claim C9 at NaN in either position.
\<close>

theorem letter_rank_total_nan_is_F_witness:
  "letter_rank_distance_statistics LETTER_RANKS NaN (Fin 0.010) = ''F''
   \<and> letter_rank_distance_statistics LETTER_RANKS (Fin 0.010) NaN = ''F''"
  using letter_rank_total_nan_is_F [of NaN "Fin 0.010"] letter_rank_total_nan_is_F [of "Fin 0.010" NaN]
  by simp

lemma severity_label_le_F: "l \<in> set rank_labels \<Longrightarrow> severity l \<le> severity ''F''"
  by (auto simp: severity_def rank_labels_def)

text \<open>
  Claim C7: for a table whose labels are rank labels in the order of their severity, and a
  second table with the same labels and boundaries at least as large, the rank of a fixed
  pair of values against the second table is never more severe than against the first.
\<close>

theorem scaled_up_table_never_stricter:
  assumes "scaled_up t t'"
    and "sorted (map (\<lambda>g. severity (grade.rank g)) t)"
    and "set (map grade.rank t) \<subseteq> set rank_labels"
  shows "severity (letter_rank_distance_statistics t' w k)
       \<le> severity (letter_rank_distance_statistics t w k)"
proof (rule scan_monotone)
  show "list_all2 (\<lambda>g g'. grade.rank g' = grade.rank g
        \<and> wasserstein_boundary g \<le> wasserstein_boundary g'
        \<and> kolmogorov_smirnov_boundary g \<le> kolmogorov_smirnov_boundary g') t t'"
    using assms(1) by (simp add: scaled_up_def)
  show "sorted (map (\<lambda>g. severity (grade.rank g)) t)" by (rule assms(2))
  show "\<forall>g\<in>set t. severity (grade.rank g) \<le> severity ''F''"
    using assms(3) severity_label_le_F by auto
qed

text \<open>
  Claim C7 on the table of the class and its doubled copy: the pair (0.050, 0.100) is
  ranked A by the first and S by the second.
\<close>

theorem scaled_up_table_never_stricter_witness:
  "scaled_up LETTER_RANKS doubled_ranks
   \<and> sorted (map (\<lambda>g. severity (grade.rank g)) LETTER_RANKS)
   \<and> set (map grade.rank LETTER_RANKS) \<subseteq> set rank_labels
   \<and> letter_rank_distance_statistics doubled_ranks (Fin 0.050) (Fin 0.100) = ''S''
   \<and> letter_rank_distance_statistics LETTER_RANKS (Fin 0.050) (Fin 0.100) = ''A''
   \<and> severity (letter_rank_distance_statistics doubled_ranks (Fin 0.050) (Fin 0.100))
       \<le> severity (letter_rank_distance_statistics LETTER_RANKS (Fin 0.050) (Fin 0.100))"
proof -
  have h1: "scaled_up LETTER_RANKS doubled_ranks"
    by (simp add: scaled_up_def doubled_ranks_def LETTER_RANKS_def)
  have h2: "sorted (map (\<lambda>g. severity (grade.rank g)) LETTER_RANKS)"
    by (simp add: LETTER_RANKS_def severity_def rank_labels_def)
  have h3: "set (map grade.rank LETTER_RANKS) \<subseteq> set rank_labels"
    by (simp add: LETTER_RANKS_def rank_labels_def)
  have v1: "letter_rank_distance_statistics doubled_ranks (Fin 0.050) (Fin 0.100) = ''S''"
    by (simp add: doubled_ranks_def LETTER_RANKS_def within_grade_def)
  have v2: "letter_rank_distance_statistics LETTER_RANKS (Fin 0.050) (Fin 0.100) = ''A''"
    by (simp add: LETTER_RANKS_def within_grade_def)
  from scaled_up_table_never_stricter [OF h1 h2 h3, of "Fin 0.050" "Fin 0.100"] h1 h2 h3 v1 v2
  show ?thesis by blast
qed

section \<open>Properties of the empirical distribution builder\<close>

lemma length_normalize_raw_data [simp]: "length (normalize_raw_data raw) = length raw"
  by (simp add: normalize_raw_data_def)

lemma length_np_sort [simp]: "length (np_sort xs) = length xs"
  by (simp add: np_sort_def)

lemma mset_np_sort [simp]: "mset (np_sort xs) = mset xs"
  by (simp add: np_sort_def)

lemma set_np_sort [simp]: "set (np_sort xs) = set xs"
  by (simp add: np_sort_def)

lemma sorted_np_sort: "sorted (map float_key (np_sort xs))"
  by (simp add: np_sort_def)

lemma random_choice_length:
  "random_choice rs a n = Inr (raw, rs') \<Longrightarrow> length raw = n"
  by (auto simp: random_choice_def split: if_splits)

lemma random_choice_min:
  "\<exists>raw rs'. random_choice rs a (min (length a) m) = Inr (raw, rs')"
  by (auto simp: random_choice_def)

lemma zip_upt_map:
  "length xs = n \<Longrightarrow> zip xs (map f [0..<n]) = map (\<lambda>i. (xs ! i, f i)) [0..<n]"
  by (rule nth_equalityI) auto

lemma index_below_trim:
  assumes "i < n"
  shows "real i / real n < 0.96 \<longleftrightarrow> i < nat \<lceil>0.96 * real n\<rceil>"
proof -
  from assms have n: "0 < real n" by simp
  have "real i / real n < 0.96 \<longleftrightarrow> real i < 0.96 * real n"
    using n by (simp add: field_simps)
  also have "\<dots> \<longleftrightarrow> int i < \<lceil>0.96 * real n\<rceil>"
    by (simp add: less_ceiling_iff)
  also have "\<dots> \<longleftrightarrow> i < nat \<lceil>0.96 * real n\<rceil>"
    by (simp add: zless_nat_eq_int_zless)
  finally show ?thesis .
qed

lemma trim_le: "nat \<lceil>0.96 * real n\<rceil> \<le> n"
proof -
  have "0.96 * real n \<le> real_of_int (int n)" by simp
  then have "\<lceil>0.96 * real n\<rceil> \<le> int n" by (simp only: ceiling_le_iff)
  then show ?thesis by simp
qed

lemma filter_less_upt: "filter (\<lambda>i. i < m) [0..<n] = [0..<min m n]"
proof (induction n)
  case 0
  then show ?case by simp
next
  case (Suc n)
  show ?case
  proof (cases "n < m")
    case True
    then have "min m n = n" "min m (Suc n) = Suc n" by simp_all
    with Suc True show ?thesis by simp
  next
    case False
    then have "min m n = m" "min m (Suc n) = m" by simp_all
    with Suc False show ?thesis by simp
  qed
qed

lemma filter_trim_upt:
  "filter (\<lambda>i. real i / real n < 0.96) [0..<n] = [0..<nat \<lceil>0.96 * real n\<rceil>]"
proof -
  have "filter (\<lambda>i. real i / real n < 0.96) [0..<n]
      = filter (\<lambda>i. i < nat \<lceil>0.96 * real n\<rceil>) [0..<n]"
  proof (rule filter_cong [OF refl])
    fix i assume "i \<in> set [0..<n]"
    then have "i < n" by simp
    then show "(real i / real n < 0.96) = (i < nat \<lceil>0.96 * real n\<rceil>)"
      by (rule index_below_trim)
  qed
  also have "\<dots> = [0..<nat \<lceil>0.96 * real n\<rceil>]"
    using trim_le [of n] by (simp only: filter_less_upt min_absorb1)
  finally show ?thesis .
qed

lemma ecdf_of_raw_data_rows:
  "ecdf_of_raw_data raw =
     map (\<lambda>i. (np_sort (normalize_raw_data raw) ! i, real i / real (length raw)))
         (filter (\<lambda>i. real i / real (length raw) < 0.96) [0..<length raw])"
  by (simp add: ecdf_of_raw_data_def zip_upt_map filter_map comp_def not_le)

lemma length_ecdf_of_raw_data:
  "length (ecdf_of_raw_data raw) = nat \<lceil>0.96 * real (length raw)\<rceil>"
  unfolding ecdf_of_raw_data_rows filter_trim_upt by simp

lemma probability_column_ecdf:
  "probability_column (ecdf_of_raw_data raw) =
     filter (\<lambda>p. p < 0.96) (map (\<lambda>i. real i / real (length raw)) [0..<length raw])"
  by (simp add: probability_column_def ecdf_of_raw_data_rows filter_map comp_def)

lemma ecdf_of_raw_data_take:
  "ecdf_of_raw_data raw =
     take (nat \<lceil>0.96 * real (length raw)\<rceil>)
          (zip (np_sort (normalize_raw_data raw))
               (map (\<lambda>i. real i / real (length raw)) [0..<length raw]))"
proof -
  have "take (nat \<lceil>0.96 * real (length raw)\<rceil>) [0..<length raw]
      = [0..<nat \<lceil>0.96 * real (length raw)\<rceil>]"
    using trim_le [of "length raw"] by (simp only: take_upt add_0)
  then show ?thesis
    unfolding ecdf_of_raw_data_rows filter_trim_upt
    by (simp only: zip_upt_map length_np_sort length_normalize_raw_data take_map)
qed

section \<open>Two runs of the engine, step by step\<close>

lemma example_choice_a:
  "random_choice (\<lambda>j. j) [0, 0, 0, 0, 5] 5 = Inr ([0, 0, 0, 0, 5], \<lambda>j. j + 5)"
  by (simp add: random_choice_def upt_conv_Cons)

lemma example_choice_b:
  "random_choice (\<lambda>j. j + 5) [0, 5, 5, 5, 5] 5 = Inr ([0, 5, 5, 5, 5], \<lambda>j. j + 5 + 5)"
  by (simp add: random_choice_def upt_conv_Cons)

lemma example_ecdf_a:
  "ecdf_of_raw_data [0, 0, 0, 0, 5] =
     [(Fin (-1/2), 0), (Fin (-1/2), 1/5), (Fin (-1/2), 2/5), (Fin (-1/2), 3/5), (Fin 2, 4/5)]"
  by (simp add: ecdf_of_raw_data_def normalize_raw_data_def np_mean_def np_std_def
      float_div_def np_sort_def upt_conv_Cons)

lemma example_ecdf_b:
  "ecdf_of_raw_data [0, 5, 5, 5, 5] =
     [(Fin (-2), 0), (Fin (1/2), 1/5), (Fin (1/2), 2/5), (Fin (1/2), 3/5), (Fin (1/2), 4/5)]"
  by (simp add: ecdf_of_raw_data_def normalize_raw_data_def np_mean_def np_std_def
      float_div_def np_sort_def upt_conv_Cons)

lemma example_wasserstein:
  "stats_wasserstein_distance
     [Fin (-1/2), Fin (-1/2), Fin (-1/2), Fin (-1/2), Fin 2]
     [Fin (-2), Fin (1/2), Fin (1/2), Fin (1/2), Fin (1/2)] = Inr (Fin (6/5))"
  by (simp add: stats_wasserstein_distance_def np_sort_def np_diff_def np_sum_def
      searchsorted_right_def)

lemma example_paths: "paths_inside 5 5 (3/5) 5 5 = 162"
  by code_simp

lemma example_probability: "ks_exact_probability 5 5 (3/5) = 5/14"
  by (simp add: ks_exact_probability_def example_paths numeral_eq_Suc)

lemma example_cddiffs:
  "map (\<lambda>x. real (searchsorted_right [Fin (-1/2), Fin (-1/2), Fin (-1/2), Fin (-1/2), Fin 2] x) / real 5
           - real (searchsorted_right [Fin (-2), Fin (1/2), Fin (1/2), Fin (1/2), Fin (1/2)] x) / real 5)
       (np_sort [Fin (-1/2), Fin (-1/2), Fin (-1/2), Fin (-1/2), Fin 2]
        @ np_sort [Fin (-2), Fin (1/2), Fin (1/2), Fin (1/2), Fin (1/2)])
   = [3/5, 3/5, 3/5, 3/5, 0, -1/5, -1/5, -1/5, -1/5, -1/5]"
  by (simp add: np_sort_def searchsorted_right_def)

lemma example_ks:
  "stats_ks_2samp
     [Fin (-1/2), Fin (-1/2), Fin (-1/2), Fin (-1/2), Fin 2]
     [Fin (-2), Fin (1/2), Fin (1/2), Fin (1/2), Fin (1/2)] = Inr (Fin (3/5), Fin (5/14))"
proof -
  have len: "length [Fin (-1/2), Fin (-1/2), Fin (-1/2), Fin (-1/2), Fin 2] = 5"
    "length [Fin (-2), Fin (1/2), Fin (1/2), Fin (1/2), Fin (1/2)] = 5" by simp_all
  have d: "max (np_clip (- Min (set [3/5, 3/5, 3/5, 3/5, 0, -1/5, -1/5, -1/5, -1/5, -1/5::real])) 0 1)
               (Max (set [3/5, 3/5, 3/5, 3/5, 0, -1/5, -1/5, -1/5, -1/5, -1/5::real])) = 3/5"
    by (simp add: np_clip_def)
  have p: "np_clip (5/14) 0 1 = 5/14" by (simp add: np_clip_def)
  show ?thesis
    unfolding stats_ks_2samp_def Let_def len example_cddiffs d example_probability p
    by simp
qed

lemma example_round_w: "py_round (Fin (6/5)) 3 = Fin (6/5)"
  by (simp add: rint_def)

lemma example_round_d: "py_round (Fin (3/5)) 3 = Fin (3/5)"
  by (simp add: rint_def)

lemma example_rank: "letter_rank_distance_statistics LETTER_RANKS (Fin (6/5)) (Fin (3/5)) = ''F''"
  by (simp add: LETTER_RANKS_def within_grade_def)

lemma example_run:
  "StatisticalDistanceTest scipy_stats_ref (\<lambda>j. j) [0, 0, 0, 0, 5] [0, 5, 5, 5, 5] =
     Inr (\<lparr>sample_size = 5,
           sample_a = [(Fin (-1/2), 0), (Fin (-1/2), 1/5), (Fin (-1/2), 2/5), (Fin (-1/2), 3/5), (Fin 2, 4/5)],
           sample_b = [(Fin (-2), 0), (Fin (1/2), 1/5), (Fin (1/2), 2/5), (Fin (1/2), 3/5), (Fin (1/2), 4/5)],
           wasserstein_d_value = Fin (6/5), ks_d_value = Fin (3/5), ks_p_value = Fin (5/14),
           rank = ''F''\<rparr>, \<lambda>j. j + 5 + 5)"
proof -
  have n: "min (length [0, 0, 0, 0, 5::real]) (length [0, 5, 5, 5, 5::real]) = 5" by simp
  have a: "calculate_empirical_cumulative_distribution_function 5 (\<lambda>j. j) [0, 0, 0, 0, 5]
      = Inr ([(Fin (-1/2), 0), (Fin (-1/2), 1/5), (Fin (-1/2), 2/5), (Fin (-1/2), 3/5), (Fin 2, 4/5)], \<lambda>j. j + 5)"
    by (simp only: calculate_empirical_cumulative_distribution_function_def example_choice_a
        example_ecdf_a sum.case prod.case)
  have b: "calculate_empirical_cumulative_distribution_function 5 (\<lambda>j. j + 5) [0, 5, 5, 5, 5]
      = Inr ([(Fin (-2), 0), (Fin (1/2), 1/5), (Fin (1/2), 2/5), (Fin (1/2), 3/5), (Fin (1/2), 4/5)], \<lambda>j. j + 5 + 5)"
    by (simp only: calculate_empirical_cumulative_distribution_function_def example_choice_b
        example_ecdf_b sum.case prod.case)
  have w: "calculate_wasserstein_distance_statistics scipy_stats_ref
        [(Fin (-1/2), 0), (Fin (-1/2), 1/5), (Fin (-1/2), 2/5), (Fin (-1/2), 3/5), (Fin 2, 4/5)]
        [(Fin (-2), 0), (Fin (1/2), 1/5), (Fin (1/2), 2/5), (Fin (1/2), 3/5), (Fin (1/2), 4/5)]
      = Inr (Fin (6/5))"
    by (simp only: calculate_wasserstein_distance_statistics_def scipy_stats_ref_def
        scipy_stats.select_convs measure_column_def list.map fst_conv example_wasserstein
        sum.case example_round_w)
  have k: "calculate_kolmogorov_smirnov_distance_statistics scipy_stats_ref
        [(Fin (-1/2), 0), (Fin (-1/2), 1/5), (Fin (-1/2), 2/5), (Fin (-1/2), 3/5), (Fin 2, 4/5)]
        [(Fin (-2), 0), (Fin (1/2), 1/5), (Fin (1/2), 2/5), (Fin (1/2), 3/5), (Fin (1/2), 4/5)]
      = Inr (Fin (3/5), Fin (5/14))"
    by (simp only: calculate_kolmogorov_smirnov_distance_statistics_def scipy_stats_ref_def
        scipy_stats.select_convs measure_column_def list.map fst_conv example_ks
        sum.case prod.case example_round_d)
  show ?thesis
    by (simp only: StatisticalDistanceTest_def Let_def n a b w k example_rank sum.case prod.case)
qed






section \<open>Properties of the engine\<close>

lemma calculate_ecdf_Inr:
  "calculate_empirical_cumulative_distribution_function n rs population = Inr (sample, rs')
   \<longleftrightarrow> (\<exists>raw. random_choice rs population n = Inr (raw, rs') \<and> sample = ecdf_of_raw_data raw)"
  by (auto simp: calculate_empirical_cumulative_distribution_function_def split: sum.splits)

lemma engine_of_draws:
  assumes "random_choice rs a (min (length a) (length b)) = Inr (raw_a, rs1)"
    and "random_choice rs1 b (min (length a) (length b)) = Inr (raw_b, rs2)"
  shows "StatisticalDistanceTest lib rs a b =
     (case calculate_wasserstein_distance_statistics lib (ecdf_of_raw_data raw_a) (ecdf_of_raw_data raw_b) of
        Inl e \<Rightarrow> Inl e
      | Inr w \<Rightarrow>
     (case calculate_kolmogorov_smirnov_distance_statistics lib (ecdf_of_raw_data raw_a) (ecdf_of_raw_data raw_b) of
        Inl e \<Rightarrow> Inl e
      | Inr (d, p) \<Rightarrow>
          Inr (\<lparr>sample_size = min (length a) (length b),
                sample_a = ecdf_of_raw_data raw_a, sample_b = ecdf_of_raw_data raw_b,
                wasserstein_d_value = w, ks_d_value = d, ks_p_value = p,
                rank = letter_rank_distance_statistics LETTER_RANKS w d\<rparr>, rs2)))"
  using assms
  by (simp add: StatisticalDistanceTest_def Let_def
      calculate_empirical_cumulative_distribution_function_def)

lemma engine_draws_exist:
  "\<exists>raw_a rs1 raw_b rs2.
      random_choice rs a (min (length a) (length b)) = Inr (raw_a, rs1)
    \<and> random_choice rs1 b (min (length a) (length b)) = Inr (raw_b, rs2)"
proof -
  obtain raw_a rs1 where a: "random_choice rs a (min (length a) (length b)) = Inr (raw_a, rs1)"
    using random_choice_min by blast
  obtain raw_b rs2 where "random_choice rs1 b (min (length b) (length a)) = Inr (raw_b, rs2)"
    using random_choice_min by blast
  then have "random_choice rs1 b (min (length a) (length b)) = Inr (raw_b, rs2)"
    by (simp add: min.commute)
  with a show ?thesis by blast
qed

lemma engine_Inr:
  assumes "random_choice rs a (min (length a) (length b)) = Inr (raw_a, rs1)"
    and "random_choice rs1 b (min (length a) (length b)) = Inr (raw_b, rs2)"
    and "StatisticalDistanceTest lib rs a b = Inr (obj, rs')"
  shows "sample_size obj = min (length a) (length b)
       \<and> sample_a obj = ecdf_of_raw_data raw_a \<and> sample_b obj = ecdf_of_raw_data raw_b
       \<and> rs' = rs2"
  using assms(3) unfolding engine_of_draws [OF assms(1,2)]
  by (auto split: sum.splits prod.splits)

text \<open>
  Claim C2: when the builder returns a sample, it is made of the drawn values as follows:
  the normalized values are sorted ascending (a permutation of them, in the order numpy
  sorts by), the value at index \<open>i\<close> gets the probability \<open>i / n\<close>, and the rows kept
  are exactly those with \<open>i / n < 0.96\<close>; these are the first \<open>\<lceil>0.96 n\<rceil>\<close> rows, so the
  rows dropped are at the end.
\<close>

theorem ecdf_sorted_ranked_trimmed:
  assumes "calculate_empirical_cumulative_distribution_function n rs population = Inr (sample, rs')"
  shows "\<exists>raw_data.
      random_choice rs population n = Inr (raw_data, rs') \<and> length raw_data = n
    \<and> mset (np_sort (normalize_raw_data raw_data)) = mset (normalize_raw_data raw_data)
    \<and> sorted (map float_key (np_sort (normalize_raw_data raw_data)))
    \<and> sample = map (\<lambda>i. (np_sort (normalize_raw_data raw_data) ! i, real i / real n))
                   (filter (\<lambda>i. real i / real n < 0.96) [0..<n])
    \<and> sample = take (nat \<lceil>0.96 * real n\<rceil>)
                  (zip (np_sort (normalize_raw_data raw_data)) (map (\<lambda>i. real i / real n) [0..<n]))"
proof -
  from assms obtain raw where raw: "random_choice rs population n = Inr (raw, rs')"
    and sample: "sample = ecdf_of_raw_data raw"
    by (auto simp: calculate_ecdf_Inr)
  have len: "length raw = n" using raw by (rule random_choice_length)
  have "sample = map (\<lambda>i. (np_sort (normalize_raw_data raw) ! i, real i / real n))
                   (filter (\<lambda>i. real i / real n < 0.96) [0..<n])"
    using ecdf_of_raw_data_rows [of raw] unfolding sample len .
  moreover have "sample = take (nat \<lceil>0.96 * real n\<rceil>)
                  (zip (np_sort (normalize_raw_data raw)) (map (\<lambda>i. real i / real n) [0..<n]))"
    using ecdf_of_raw_data_take [of raw] unfolding sample len .
  ultimately show ?thesis
    using raw len sorted_np_sort mset_np_sort by blast
qed

text \<open>
  Claim C2 on the draw \<open>[0, 0, 0, 0, 5]\<close>: five rows, none with a probability of 0.96 or
  more; and on a draw of 25 values: 24 rows, the one with probability \<open>24 / 25\<close> dropped.
\<close>

theorem ecdf_sorted_ranked_trimmed_witness:
  "calculate_empirical_cumulative_distribution_function 5 (\<lambda>j. j) [0, 0, 0, 0, 5]
     = Inr ([(Fin (-1/2), 0), (Fin (-1/2), 1/5), (Fin (-1/2), 2/5), (Fin (-1/2), 3/5), (Fin 2, 4/5)],
            \<lambda>j. j + 5)
   \<and> (\<exists>raw_data.
        random_choice (\<lambda>j. j) [0, 0, 0, 0, 5] 5 = Inr (raw_data, \<lambda>j. j + 5) \<and> length raw_data = 5
      \<and> [(Fin (-1/2), 0), (Fin (-1/2), 1/5), (Fin (-1/2), 2/5), (Fin (-1/2), 3/5), (Fin 2, 4/5)]
          = take (nat \<lceil>0.96 * real 5\<rceil>)
              (zip (np_sort (normalize_raw_data raw_data)) (map (\<lambda>i. real i / real 5) [0..<5])))
   \<and> (\<exists>sample rs'.
        calculate_empirical_cumulative_distribution_function 25 (\<lambda>j. j) [5] = Inr (sample, rs')
      \<and> length sample = 24)"
proof -
  have h: "calculate_empirical_cumulative_distribution_function 5 (\<lambda>j. j) [0, 0, 0, 0, 5]
     = Inr ([(Fin (-1/2), 0), (Fin (-1/2), 1/5), (Fin (-1/2), 2/5), (Fin (-1/2), 3/5), (Fin 2, 4/5)],
            \<lambda>j. j + 5)"
    by (simp only: calculate_empirical_cumulative_distribution_function_def example_choice_a
        example_ecdf_a sum.case prod.case)
  obtain raw rs' where "random_choice (\<lambda>j. j) [5] 25 = Inr (raw, rs')"
    by (simp add: random_choice_def)
  then have t: "calculate_empirical_cumulative_distribution_function 25 (\<lambda>j. j) [5]
      = Inr (ecdf_of_raw_data raw, rs')"
    by (simp add: calculate_ecdf_Inr)
  from ecdf_sorted_ranked_trimmed [OF t] obtain raw_data where
    l: "length raw_data = 25"
    and s: "ecdf_of_raw_data raw = take (nat \<lceil>0.96 * real 25\<rceil>)
        (zip (np_sort (normalize_raw_data raw_data)) (map (\<lambda>i. real i / real 25) [0..<25]))"
    by blast
  have "nat \<lceil>0.96 * real 25\<rceil> = 24" by simp
  then have "length (ecdf_of_raw_data raw) = 24"
    unfolding s using l by simp
  with t have "\<exists>sample rs'.
        calculate_empirical_cumulative_distribution_function 25 (\<lambda>j. j) [5] = Inr (sample, rs')
      \<and> length sample = 24"
    by blast
  with ecdf_sorted_ranked_trimmed [OF h] h show ?thesis by blast
qed

text \<open>
  Claim C3: the engine draws from both populations at one and the same size, the smaller
  of the two lengths; both draws succeed and have exactly this length, and a constructed
  object holds this size and the two samples built from these two draws.
\<close>

theorem shared_sample_size:
  "\<exists>raw_a rs1 raw_b rs2.
      random_choice rs population_a (min (length population_a) (length population_b)) = Inr (raw_a, rs1)
    \<and> random_choice rs1 population_b (min (length population_a) (length population_b)) = Inr (raw_b, rs2)
    \<and> length raw_a = min (length population_a) (length population_b)
    \<and> length raw_b = min (length population_a) (length population_b)
    \<and> (\<forall>obj rs'. StatisticalDistanceTest lib rs population_a population_b = Inr (obj, rs') \<longrightarrow>
          sample_size obj = min (length population_a) (length population_b)
        \<and> sample_a obj = ecdf_of_raw_data raw_a
        \<and> sample_b obj = ecdf_of_raw_data raw_b)"
proof -
  obtain raw_a rs1 raw_b rs2 where
    a: "random_choice rs population_a (min (length population_a) (length population_b)) = Inr (raw_a, rs1)"
    and b: "random_choice rs1 population_b (min (length population_a) (length population_b)) = Inr (raw_b, rs2)"
    using engine_draws_exist by blast
  have "length raw_a = min (length population_a) (length population_b)"
    using a by (rule random_choice_length)
  moreover have "length raw_b = min (length population_a) (length population_b)"
    using b by (rule random_choice_length)
  moreover have "\<forall>obj rs'. StatisticalDistanceTest lib rs population_a population_b = Inr (obj, rs') \<longrightarrow>
          sample_size obj = min (length population_a) (length population_b)
        \<and> sample_a obj = ecdf_of_raw_data raw_a
        \<and> sample_b obj = ecdf_of_raw_data raw_b"
    using engine_Inr [OF a b] by blast
  ultimately show ?thesis using a b by blast
qed

text \<open>
  Claim C3 on two populations of five values, with the reference routines.
\<close>

theorem shared_sample_size_witness:
  "\<exists>raw_a rs1 raw_b rs2.
      random_choice (\<lambda>j. j) [0, 0, 0, 0, 5] (min (length [0, 0, 0, 0, 5::real]) (length [0, 5, 5, 5, 5::real]))
        = Inr (raw_a, rs1)
    \<and> random_choice rs1 [0, 5, 5, 5, 5] (min (length [0, 0, 0, 0, 5::real]) (length [0, 5, 5, 5, 5::real]))
        = Inr (raw_b, rs2)
    \<and> length raw_a = 5 \<and> length raw_b = 5
    \<and> sample_a (fst (projr (StatisticalDistanceTest scipy_stats_ref (\<lambda>j. j) [0, 0, 0, 0, 5] [0, 5, 5, 5, 5])))
        = ecdf_of_raw_data raw_a
    \<and> sample_b (fst (projr (StatisticalDistanceTest scipy_stats_ref (\<lambda>j. j) [0, 0, 0, 0, 5] [0, 5, 5, 5, 5])))
        = ecdf_of_raw_data raw_b
    \<and> sample_size (fst (projr (StatisticalDistanceTest scipy_stats_ref (\<lambda>j. j) [0, 0, 0, 0, 5] [0, 5, 5, 5, 5])))
        = 5"
proof -
  have n: "min (length [0, 0, 0, 0, 5::real]) (length [0, 5, 5, 5, 5::real]) = 5" by simp
  from shared_sample_size [of "\<lambda>j. j" "[0, 0, 0, 0, 5]" "[0, 5, 5, 5, 5]" scipy_stats_ref]
  obtain raw_a rs1 raw_b rs2 where
    a: "random_choice (\<lambda>j. j) [0, 0, 0, 0, 5] (min (length [0, 0, 0, 0, 5::real]) (length [0, 5, 5, 5, 5::real])) = Inr (raw_a, rs1)"
    and b: "random_choice rs1 [0, 5, 5, 5, 5] (min (length [0, 0, 0, 0, 5::real]) (length [0, 5, 5, 5, 5::real])) = Inr (raw_b, rs2)"
    and la: "length raw_a = min (length [0, 0, 0, 0, 5::real]) (length [0, 5, 5, 5, 5::real])"
    and lb: "length raw_b = min (length [0, 0, 0, 0, 5::real]) (length [0, 5, 5, 5, 5::real])"
    and run: "\<forall>obj rs'. StatisticalDistanceTest scipy_stats_ref (\<lambda>j. j) [0, 0, 0, 0, 5] [0, 5, 5, 5, 5] = Inr (obj, rs') \<longrightarrow>
          sample_size obj = min (length [0, 0, 0, 0, 5::real]) (length [0, 5, 5, 5, 5::real])
        \<and> sample_a obj = ecdf_of_raw_data raw_a
        \<and> sample_b obj = ecdf_of_raw_data raw_b"
    by blast
  obtain obj rs' where r: "StatisticalDistanceTest scipy_stats_ref (\<lambda>j. j) [0, 0, 0, 0, 5] [0, 5, 5, 5, 5] = Inr (obj, rs')"
    using example_run by blast
  from run r have "sample_size obj = min (length [0, 0, 0, 0, 5::real]) (length [0, 5, 5, 5, 5::real])
        \<and> sample_a obj = ecdf_of_raw_data raw_a \<and> sample_b obj = ecdf_of_raw_data raw_b"
    by blast
  with a b la lb show ?thesis
    unfolding r n by (intro exI [of _ raw_a] exI [of _ rs1] exI [of _ raw_b] exI [of _ rs2]) simp
qed

text \<open>
  Claim C10: after a successful construction the two samples have the same length and the
  same probability column, the values \<open>i / n\<close> below 0.96 for \<open>i\<close> from 0 to \<open>n - 1\<close> in
  order, where \<open>n\<close> is the shared sample size.
\<close>

theorem samples_same_probability_column:
  assumes "StatisticalDistanceTest lib rs population_a population_b = Inr (obj, rs')"
  shows "length (sample_a obj) = length (sample_b obj)
       \<and> probability_column (sample_a obj) = probability_column (sample_b obj)
       \<and> probability_column (sample_a obj)
           = filter (\<lambda>p. p < 0.96)
               (map (\<lambda>i. real i / real (sample_size obj)) [0..<sample_size obj])
       \<and> sample_size obj = min (length population_a) (length population_b)"
proof -
  obtain raw_a rs1 raw_b rs2 where
    a: "random_choice rs population_a (min (length population_a) (length population_b)) = Inr (raw_a, rs1)"
    and b: "random_choice rs1 population_b (min (length population_a) (length population_b)) = Inr (raw_b, rs2)"
    using engine_draws_exist by blast
  have la: "length raw_a = min (length population_a) (length population_b)"
    using a by (rule random_choice_length)
  have lb: "length raw_b = min (length population_a) (length population_b)"
    using b by (rule random_choice_length)
  from engine_Inr [OF a b assms] have
    n: "sample_size obj = min (length population_a) (length population_b)"
    and sa: "sample_a obj = ecdf_of_raw_data raw_a"
    and sb: "sample_b obj = ecdf_of_raw_data raw_b" by simp_all
  have pa: "probability_column (sample_a obj)
      = filter (\<lambda>p. p < 0.96) (map (\<lambda>i. real i / real (sample_size obj)) [0..<sample_size obj])"
    unfolding sa probability_column_ecdf la n ..
  have pb: "probability_column (sample_b obj)
      = filter (\<lambda>p. p < 0.96) (map (\<lambda>i. real i / real (sample_size obj)) [0..<sample_size obj])"
    unfolding sb probability_column_ecdf lb n ..
  have "length (sample_a obj) = length (sample_b obj)"
    unfolding sa sb length_ecdf_of_raw_data la lb ..
  with pa pb n show ?thesis by simp
qed

text \<open>
  Claim C10 on the first of the two runs above.
\<close>

theorem samples_same_probability_column_witness:
  "length [(Fin (-1/2), 0::real), (Fin (-1/2), 1/5), (Fin (-1/2), 2/5), (Fin (-1/2), 3/5), (Fin 2, 4/5)]
     = length [(Fin (-2), 0::real), (Fin (1/2), 1/5), (Fin (1/2), 2/5), (Fin (1/2), 3/5), (Fin (1/2), 4/5)]
   \<and> probability_column [(Fin (-1/2), 0), (Fin (-1/2), 1/5), (Fin (-1/2), 2/5), (Fin (-1/2), 3/5), (Fin 2, 4/5)]
     = probability_column [(Fin (-2), 0), (Fin (1/2), 1/5), (Fin (1/2), 2/5), (Fin (1/2), 3/5), (Fin (1/2), 4/5)]
   \<and> probability_column [(Fin (-1/2), 0), (Fin (-1/2), 1/5), (Fin (-1/2), 2/5), (Fin (-1/2), 3/5), (Fin 2, 4/5)]
     = filter (\<lambda>p. p < 0.96) (map (\<lambda>i. real i / real 5) [0..<5])
   \<and> 5 = min (length [0, 0, 0, 0, 5::real]) (length [0, 5, 5, 5, 5::real])"
  by (rule samples_same_probability_column
      [OF example_run, unfolded statistical_distance_test.select_convs])

text \<open>
  Claim C8: two runs on the same populations, from any two states of the random source that
  yield the same two draws, end the same way: with the same object (samples, distances,
  probability and rank) or the same exception. The random source enters the result through
  the two draws only.
\<close>

theorem report_determined_by_draws:
  assumes "random_choice rs1 population_a (min (length population_a) (length population_b)) = Inr (raw_a, rs1')"
    and "random_choice rs1' population_b (min (length population_a) (length population_b)) = Inr (raw_b, rs1'')"
    and "random_choice rs2 population_a (min (length population_a) (length population_b)) = Inr (raw_a, rs2')"
    and "random_choice rs2' population_b (min (length population_a) (length population_b)) = Inr (raw_b, rs2'')"
  shows "map_sum id fst (StatisticalDistanceTest lib rs1 population_a population_b)
       = map_sum id fst (StatisticalDistanceTest lib rs2 population_a population_b)"
  unfolding engine_of_draws [OF assms(1,2)] engine_of_draws [OF assms(3,4)]
  by (simp split: sum.splits prod.splits)

text \<open>
  Claim C8 for two different states of the random source that yield the same draws.
\<close>

theorem report_determined_by_draws_witness:
  "map_sum id fst (StatisticalDistanceTest scipy_stats_ref (\<lambda>j. j) [0, 0, 0, 0, 5] [0, 5, 5, 5, 5])
     = map_sum id fst (StatisticalDistanceTest scipy_stats_ref (\<lambda>j. j + 10) [0, 0, 0, 0, 5] [0, 5, 5, 5, 5])"
proof -
  have n: "min (length [0, 0, 0, 0, 5::real]) (length [0, 5, 5, 5, 5::real]) = 5" by simp
  have a2: "random_choice (\<lambda>j. j + 10) [0, 0, 0, 0, 5] 5 = Inr ([0, 0, 0, 0, 5], \<lambda>j. j + 5 + 10)"
    by (simp add: random_choice_def upt_conv_Cons)
  have b2: "random_choice (\<lambda>j. j + 5 + 10) [0, 5, 5, 5, 5] 5 = Inr ([0, 5, 5, 5, 5], \<lambda>j. j + 5 + 5 + 10)"
    by (simp add: random_choice_def upt_conv_Cons)
  show ?thesis
    by (rule report_determined_by_draws
        [OF example_choice_a [folded n] example_choice_b [folded n] a2 [folded n] b2 [folded n]])
qed












section \<open>The range of the reported values\<close>

























end
